theory Spec2Isabelle
  imports Main
begin

section \<open>Data model (backend/app/models/models.py, backend/app/schemas.py)\<close>

datatype MessagePriority = LOW | MEDIUM | HIGH | URGENT

datatype MessageStatus = OPEN | IN_PROGRESS | RESOLVED | CLOSED

text \<open>
  The total order on priority levels that the specification names,
  \<open>LOW < MEDIUM < HIGH < URGENT\<close>, written as a table. It is independent of the
  dictionary \<open>priority_order\<close> that the handler builds.
\<close>

instantiation MessagePriority :: linorder
begin

fun less_eq_MessagePriority :: "MessagePriority \<Rightarrow> MessagePriority \<Rightarrow> bool" where
  "less_eq_MessagePriority LOW _ = True"
| "less_eq_MessagePriority MEDIUM LOW = False"
| "less_eq_MessagePriority MEDIUM _ = True"
| "less_eq_MessagePriority HIGH LOW = False"
| "less_eq_MessagePriority HIGH MEDIUM = False"
| "less_eq_MessagePriority HIGH _ = True"
| "less_eq_MessagePriority URGENT URGENT = True"
| "less_eq_MessagePriority URGENT _ = False"

definition less_MessagePriority :: "MessagePriority \<Rightarrow> MessagePriority \<Rightarrow> bool" where
  "less_MessagePriority a b = (a \<le> b \<and> \<not> b \<le> a)"

instance
proof
  fix x y z :: MessagePriority
  show "(x < y) = (x \<le> y \<and> \<not> y \<le> x)"
    by (simp add: less_MessagePriority_def)
  show "x \<le> x"
    by (cases x) simp_all
  show "x \<le> y \<Longrightarrow> y \<le> z \<Longrightarrow> x \<le> z"
    by (cases x; cases y; cases z) simp_all
  show "x \<le> y \<Longrightarrow> y \<le> x \<Longrightarrow> x = y"
    by (cases x; cases y) simp_all
  show "x \<le> y \<or> y \<le> x"
    by (cases x; cases y) simp_all
qed

end

text \<open>
  Rows of the tables. Timestamps (\<open>datetime\<close>) are natural numbers, primary keys are
  Python integers, and a character of a \<open>string\<close> stands for one code point of a Python
  \<open>str\<close>. Only the columns that the modelled handlers read or write are kept; nullable
  columns are options. A handler reads the clock (\<open>datetime.utcnow()\<close>) at several
  places of one request; the readings are one argument \<open>now\<close>.
\<close>

record Customer =
  c_id :: int
  c_name :: string
  c_email :: "string option"
  c_account_status :: "string option"
  c_last_activity :: nat

record Agent =
  a_id :: int
  a_name :: string

record Conversation =
  conv_id :: int
  conv_customer_id :: int
  conv_agent_id :: "int option"
  conv_status :: MessageStatus
  conv_priority :: "MessagePriority option"
  conv_subject :: "string option"
  conv_created_at :: nat
  conv_updated_at :: nat

record Message =
  m_id :: int
  m_conversation_id :: int
  m_customer_id :: "int option"
  m_agent_id :: "int option"
  m_content :: string
  m_is_from_customer :: bool
  m_priority :: MessagePriority
  m_created_at :: nat

text \<open>Request bodies: \<open>AgentMessageSend\<close> and \<open>MessageSend\<close> of schemas.py.\<close>

record AgentMessageSend =
  ams_content :: string
  ams_conversation_id :: int
  ams_agent_id :: int

record MessageSend =
  ms_content :: string
  ms_customer_email :: "string option"
  ms_customer_name :: "string option"
  ms_customer_id :: "int option"

text \<open>
  The payloads handed to the connection manager's broadcast functions, one constructor
  per call site:
  \<^item> \<open>ConversationUpdated id agent_id agent_name\<close>
    (\<open>broadcast_conversation_update\<close> in assign and release);
  \<^item> \<open>NewAgentMessage id conversation_id agent_id content priority created_at agent_name\<close>
    (\<open>broadcast_new_message\<close> in \<open>send_agent_message\<close>);
  \<^item> \<open>NewCustomerMessage id conversation_id customer_id content priority created_at
    customer_name customer_email\<close> (\<open>broadcast_new_message\<close> in
    \<open>receive_external_message\<close>);
  \<^item> \<open>NewCustomerMessageById id conversation_id customer_id content priority created_at
    customer_name\<close> (\<open>broadcast_new_message\<close> in \<open>send_customer_message\<close>, whose
    payload has no \<open>customer_email\<close>);
  \<^item> \<open>NewConversation id customer_id priority status subject customer_name
    customer_email\<close> (\<open>broadcast_new_conversation\<close>).
\<close>

datatype Event =
    ConversationUpdated int "int option" "string option"
  | NewAgentMessage int int int string MessagePriority nat string
  | NewCustomerMessage int int int string MessagePriority nat string "string option"
  | NewCustomerMessageById int int int string MessagePriority nat string
  | NewConversation int int MessagePriority MessageStatus "string option" string "string option"

text \<open>
  Every \<open>raise\<close> of the handlers is a value: \<open>HTTPException status_code detail\<close>,
  SQLAlchemy's \<open>MultipleResultsFound\<close> (raised by \<open>scalar_one_or_none\<close> on a result of
  more than one row), Python's \<open>AttributeError\<close>, and what \<open>json.loads\<close> raises:
  \<open>JSONDecodeError\<close> on text that is not JSON, \<open>RecursionError\<close> on text nested too
  deep, and a plain \<open>ValueError\<close> on an integer literal with more digits than the
  interpreter converts.
\<close>

datatype error =
    HTTPException nat string
  | MultipleResultsFound
  | AttributeError
  | JSONDecodeError
  | RecursionError
  | ValueError

text \<open>
  The record store shared by all requests, together with the list of broadcasts the
  handlers have asked the connection manager for, in order.
\<close>

record state =
  customers :: "Customer list"
  agents :: "Agent list"
  conversations :: "Conversation list"
  messages :: "Message list"
  broadcasts :: "Event list"

section \<open>Queries and writes\<close>

text \<open>
  \<open>select(T).where(T.id == k)\<close> followed by \<open>scalar_one_or_none()\<close>: the primary key
  admits at most one row, so the result is the row or \<open>None\<close>.
\<close>

definition find_conversation :: "state \<Rightarrow> int \<Rightarrow> Conversation option" where
  "find_conversation s k = find (\<lambda>r. conv_id r = k) (conversations s)"

definition find_agent :: "state \<Rightarrow> int \<Rightarrow> Agent option" where
  "find_agent s k = find (\<lambda>r. a_id r = k) (agents s)"

definition find_customer :: "state \<Rightarrow> int \<Rightarrow> Customer option" where
  "find_customer s k = find (\<lambda>r. c_id r = k) (customers s)"

text \<open>\<open>Customer.email\<close> is a unique column, so the lookup by email is of the same kind.\<close>

definition find_customer_by_email :: "state \<Rightarrow> string \<Rightarrow> Customer option" where
  "find_customer_by_email s e = find (\<lambda>r. c_email r = Some e) (customers s)"

text \<open>
  \<open>db.commit()\<close> of a request that changed a loaded row: the row with that primary key
  now holds the object's attributes.
\<close>

definition put_conversation :: "Conversation \<Rightarrow> Conversation list \<Rightarrow> Conversation list" where
  "put_conversation c rows = map (\<lambda>r. if conv_id r = conv_id c then c else r) rows"

definition put_customer :: "Customer \<Rightarrow> Customer list \<Rightarrow> Customer list" where
  "put_customer c rows = map (\<lambda>r. if c_id r = c_id c then c else r) rows"

text \<open>
  The primary key of an inserted row: one more than the largest key of the table
  (SQLite's rowid rule, the default \<open>DATABASE_URL\<close>), 1 for an empty table.
\<close>

definition next_id :: "int list \<Rightarrow> int" where
  "next_id ks = fold max ks 0 + 1"

section \<open>Conversation handlers (backend/app/api/conversations.py)\<close>

definition send_agent_message ::
  "state \<Rightarrow> int \<Rightarrow> AgentMessageSend \<Rightarrow> nat \<Rightarrow> (error + Message) \<times> state" where
  "send_agent_message s conversation_id message now =
    (case find_conversation s conversation_id of
       None \<Rightarrow> (Inl (HTTPException 404 ''Conversation not found''), s)
     | Some conversation \<Rightarrow>
        if conv_agent_id conversation \<noteq> None
           \<and> conv_agent_id conversation \<noteq> Some (ams_agent_id message)
        then (Inl (HTTPException 403
          ''This conversation is assigned to another agent. You cannot send messages here.''), s)
        else
          (case find_agent s (ams_agent_id message) of
             None \<Rightarrow> (Inl (HTTPException 404 ''Agent not found''), s)
           | Some agent \<Rightarrow>
              let db_message = \<lparr>m_id = next_id (map m_id (messages s)),
                     m_conversation_id = conversation_id,
                     m_customer_id = None,
                     m_agent_id = Some (ams_agent_id message),
                     m_content = ams_content message,
                     m_is_from_customer = False,
                     m_priority = MEDIUM,
                     m_created_at = now\<rparr>;
                  conversation = conversation\<lparr>conv_updated_at := now\<rparr>;
                  conversation =
                    (if conv_agent_id conversation = None
                     then conversation\<lparr>conv_agent_id := Some (ams_agent_id message)\<rparr>
                     else conversation);
                  conversation =
                    (if conv_status conversation = OPEN
                     then conversation\<lparr>conv_status := IN_PROGRESS\<rparr>
                     else conversation)
              in (Inr db_message,
                  s\<lparr>messages := messages s @ [db_message],
                    conversations := put_conversation conversation (conversations s),
                    broadcasts := broadcasts s @
                      [NewAgentMessage (m_id db_message) conversation_id (ams_agent_id message)
                         (ams_content message) (m_priority db_message) (m_created_at db_message)
                         (a_name agent)]\<rparr>)))"

text \<open>
  \<open>assign_conversation\<close> reads, awaits, and writes later. The two halves are separate
  definitions so that the requests of two callers can be interleaved between them:
  \<open>assign_check\<close> is lines 283 to 311 (load the conversation, the owner check, load the
  agent), \<open>assign_commit\<close> is lines 313 to 325 (set \<open>agent_id\<close> and \<open>updated_at\<close> on the
  loaded object, commit, broadcast, return). The update that the commit issues has no
  condition on the stored owner.
\<close>

record AssignOk =
  ok_agent_id :: int
  ok_agent_name :: string

definition assign_check ::
  "state \<Rightarrow> int \<Rightarrow> int \<Rightarrow> bool \<Rightarrow> error + (Conversation \<times> Agent)" where
  "assign_check s conversation_id agent_id force =
    (case find_conversation s conversation_id of
       None \<Rightarrow> Inl (HTTPException 404 ''Conversation not found'')
     | Some conversation \<Rightarrow>
        if conv_agent_id conversation \<noteq> None
           \<and> conv_agent_id conversation \<noteq> Some agent_id \<and> \<not> force
        then
          (let current_agent = Option.bind (conv_agent_id conversation) (find_agent s);
               agent_name = (case current_agent of Some a \<Rightarrow> a_name a
                             | None \<Rightarrow> ''another agent'')
           in Inl (HTTPException 409
                (''This conversation is already assigned to '' @ agent_name
                 @ ''. Use force=true to reassign.'')))
        else
          (case find_agent s agent_id of
             None \<Rightarrow> Inl (HTTPException 404 ''Agent not found'')
           | Some agent \<Rightarrow> Inr (conversation, agent)))"

definition assign_commit ::
  "state \<Rightarrow> Conversation \<times> Agent \<Rightarrow> int \<Rightarrow> nat \<Rightarrow> AssignOk \<times> state" where
  "assign_commit s loaded agent_id now =
    (let conversation = (fst loaded)\<lparr>conv_agent_id := Some agent_id, conv_updated_at := now\<rparr>;
         agent = snd loaded
     in (\<lparr>ok_agent_id = agent_id, ok_agent_name = a_name agent\<rparr>,
         s\<lparr>conversations := put_conversation conversation (conversations s),
           broadcasts := broadcasts s @
             [ConversationUpdated (conv_id conversation) (Some agent_id)
                (Some (a_name agent))]\<rparr>))"

definition assign_conversation ::
  "state \<Rightarrow> int \<Rightarrow> int \<Rightarrow> bool \<Rightarrow> nat \<Rightarrow> (error + AssignOk) \<times> state" where
  "assign_conversation s conversation_id agent_id force now =
    (case assign_check s conversation_id agent_id force of
       Inl e \<Rightarrow> (Inl e, s)
     | Inr loaded \<Rightarrow>
        (case assign_commit s loaded agent_id now of (ok, s') \<Rightarrow> (Inr ok, s')))"

definition release_conversation ::
  "state \<Rightarrow> int \<Rightarrow> int \<Rightarrow> nat \<Rightarrow> (error + string) \<times> state" where
  "release_conversation s conversation_id agent_id now =
    (case find_conversation s conversation_id of
       None \<Rightarrow> (Inl (HTTPException 404 ''Conversation not found''), s)
     | Some conversation \<Rightarrow>
        if conv_agent_id conversation \<noteq> Some agent_id
        then (Inl (HTTPException 403
                ''You can only release conversations assigned to you''), s)
        else
          (let conversation = conversation\<lparr>conv_agent_id := None, conv_updated_at := now\<rparr>
           in (Inr ''Conversation released'',
               s\<lparr>conversations := put_conversation conversation (conversations s),
                 broadcasts := broadcasts s @
                   [ConversationUpdated (conv_id conversation) None None]\<rparr>)))"

section \<open>Inbound customer messages (backend/app/api/external.py)\<close>

text \<open>Python truthiness of an optional integer and of an optional string.\<close>

definition truthy_int :: "int option \<Rightarrow> bool" where
  "truthy_int x = (case x of None \<Rightarrow> False | Some v \<Rightarrow> v \<noteq> 0)"

definition truthy_str :: "string option \<Rightarrow> bool" where
  "truthy_str x = (case x of None \<Rightarrow> False | Some v \<Rightarrow> v \<noteq> [])"

text \<open>
  Lines 25 to 55: find the customer by id, else by email, else create one. The new
  customer is committed at once, so the returned store holds it whatever happens later.
\<close>

definition find_or_create_customer ::
  "state \<Rightarrow> MessageSend \<Rightarrow> nat \<Rightarrow> error + (Customer \<times> state)" where
  "find_or_create_customer s message now =
    (let customer =
           (if truthy_int (ms_customer_id message)
            then Option.bind (ms_customer_id message) (find_customer s) else None);
         customer =
           (if customer = None \<and> truthy_str (ms_customer_email message)
            then Option.bind (ms_customer_email message) (find_customer_by_email s)
            else customer)
     in case customer of
          Some c \<Rightarrow> Inr (c, s)
        | None \<Rightarrow>
           if \<not> truthy_str (ms_customer_email message)
           then Inl (HTTPException 400 ''Either customer_id or customer_email is required'')
           else
             (let c = \<lparr>c_id = next_id (map c_id (customers s)),
                    c_name = (if truthy_str (ms_customer_name message)
                              then (case ms_customer_name message of Some n \<Rightarrow> n
                                    | None \<Rightarrow> ''Unknown Customer'')
                              else ''Unknown Customer''),
                    c_email = ms_customer_email message,
                    c_account_status = Some ''active'',
                    c_last_activity = now\<rparr>
              in Inr (c, s\<lparr>customers := customers s @ [c]\<rparr>)))"

text \<open>
  Lines 61 to 64: the conversations of the customer in status \<open>OPEN\<close> or \<open>IN_PROGRESS\<close>,
  ordered by \<open>updated_at\<close> descending.
\<close>

definition open_conversations :: "state \<Rightarrow> int \<Rightarrow> Conversation list" where
  "open_conversations s customer_id =
     rev (sort_key conv_updated_at
       (filter (\<lambda>r. conv_customer_id r = customer_id
                  \<and> (conv_status r = OPEN \<or> conv_status r = IN_PROGRESS))
          (conversations s)))"

text \<open>
  SQLAlchemy's \<open>Result.scalar_one_or_none()\<close>: \<open>None\<close> for no row, the row when there
  is exactly one, and the exception \<open>MultipleResultsFound\<close> when there are more.
\<close>

definition scalar_one_or_none :: "'a list \<Rightarrow> error + 'a option" where
  "scalar_one_or_none rows =
     (case rows of [] \<Rightarrow> Inr None
      | [r] \<Rightarrow> Inr (Some r)
      | _ \<Rightarrow> Inl MultipleResultsFound)"

text \<open>
  The dictionary \<open>priority_order\<close> of lines 93 to 98 and its lookup
  \<open>priority_order.get(k, 0)\<close>; a key that is not in the dictionary (a NULL priority)
  gets the default 0.
\<close>

fun priority_order :: "MessagePriority \<Rightarrow> nat" where
  "priority_order LOW = 0"
| "priority_order MEDIUM = 1"
| "priority_order HIGH = 2"
| "priority_order URGENT = 3"

definition priority_order_get :: "MessagePriority option \<Rightarrow> nat" where
  "priority_order_get k = (case k of None \<Rightarrow> 0 | Some p \<Rightarrow> priority_order p)"

record 'c ExternalOk =
  ext_message_id :: int
  ext_conversation_id :: int
  ext_customer_id :: int
  ext_priority :: MessagePriority
  ext_priority_confidence :: 'c

text \<open>
  \<open>detect_priority\<close> lives in the services package, which is not part of the sources at
  hand; it is a parameter: any function from the text to a level and a confidence.
\<close>

definition receive_external_message ::
  "(string \<Rightarrow> MessagePriority \<times> 'c) \<Rightarrow> state \<Rightarrow> MessageSend \<Rightarrow> nat
     \<Rightarrow> (error + 'c ExternalOk) \<times> state" where
  "receive_external_message detect_priority s message now =
    (case find_or_create_customer s message now of
       Inl e \<Rightarrow> (Inl e, s)
     | Inr (customer, s1) \<Rightarrow>
        (case detect_priority (ms_content message) of
           (priority, confidence) \<Rightarrow>
            (case scalar_one_or_none (open_conversations s1 (c_id customer)) of
               Inl e \<Rightarrow> (Inl e, s1)
             | Inr found \<Rightarrow>
                let (conversation, s2) =
                      (case found of
                         None \<Rightarrow>
                          (let conversation =
                                 \<lparr>conv_id = next_id (map conv_id (conversations s1)),
                                  conv_customer_id = c_id customer,
                                  conv_agent_id = None,
                                  conv_status = OPEN,
                                  conv_priority = Some priority,
                                  conv_subject =
                                    Some (if length (ms_content message) > 100
                                          then take 100 (ms_content message)
                                          else ms_content message),
                                  conv_created_at = now,
                                  conv_updated_at = now\<rparr>
                           in (conversation,
                               s1\<lparr>conversations := conversations s1 @ [conversation],
                                  broadcasts := broadcasts s1 @
                                    [NewConversation (conv_id conversation)
                                       (conv_customer_id conversation) priority
                                       (conv_status conversation) (conv_subject conversation)
                                       (c_name customer) (c_email customer)]\<rparr>))
                       | Some conversation \<Rightarrow>
                          (if priority_order_get (Some priority)
                                > priority_order_get (conv_priority conversation)
                           then conversation\<lparr>conv_priority := Some priority\<rparr>
                           else conversation, s1));
                    db_message = \<lparr>m_id = next_id (map m_id (messages s2)),
                       m_conversation_id = conv_id conversation,
                       m_customer_id = Some (c_id customer),
                       m_agent_id = None,
                       m_content = ms_content message,
                       m_is_from_customer = True,
                       m_priority = priority,
                       m_created_at = now\<rparr>;
                    conversation = conversation\<lparr>conv_updated_at := now\<rparr>;
                    customer = customer\<lparr>c_last_activity := now\<rparr>
                in (Inr \<lparr>ext_message_id = m_id db_message,
                          ext_conversation_id = conv_id conversation,
                          ext_customer_id = c_id customer,
                          ext_priority = priority,
                          ext_priority_confidence = confidence\<rparr>,
                    s2\<lparr>customers := put_customer customer (customers s2),
                       conversations := put_conversation conversation (conversations s2),
                       messages := messages s2 @ [db_message],
                       broadcasts := broadcasts s2 @
                         [NewCustomerMessage (m_id db_message) (conv_id conversation)
                            (c_id customer) (ms_content message) priority
                            (m_created_at db_message) (c_name customer)
                            (c_email customer)]\<rparr>))))"

section \<open>Customer messages by customer id (backend/app/api/customers.py)\<close>

text \<open>
  The values of the enumeration \<open>MessagePriority\<close>, and Python's \<open><\<close> on \<open>str\<close>:
  code point by code point, a proper prefix being smaller.
\<close>

fun priority_value :: "MessagePriority \<Rightarrow> string" where
  "priority_value LOW = ''low''"
| "priority_value MEDIUM = ''medium''"
| "priority_value HIGH = ''high''"
| "priority_value URGENT = ''urgent''"

fun str_less :: "string \<Rightarrow> string \<Rightarrow> bool" where
  "str_less [] [] = False"
| "str_less [] (y # ys) = True"
| "str_less (x # xs) [] = False"
| "str_less (x # xs) (y # ys) =
     ((of_char x :: nat) < of_char y \<or> (x = y \<and> str_less xs ys))"

text \<open>
  \<open>send_customer_message\<close>, the second handler that takes a customer message. It finds
  the customer by the id of the path, runs the same query for a live conversation, and
  escalates with \<open>priority.value > conversation.priority.value\<close> (line 188): a
  comparison of the two strings. On a NULL priority \<open>.value\<close> raises \<open>AttributeError\<close>.
\<close>

definition send_customer_message ::
  "(string \<Rightarrow> MessagePriority \<times> 'c) \<Rightarrow> state \<Rightarrow> int \<Rightarrow> MessageSend \<Rightarrow> nat
     \<Rightarrow> (error + Message) \<times> state" where
  "send_customer_message detect_priority s customer_id message now =
    (case find_customer s customer_id of
       None \<Rightarrow> (Inl (HTTPException 404 ''Customer not found''), s)
     | Some customer \<Rightarrow>
        (case detect_priority (ms_content message) of
           (priority, confidence) \<Rightarrow>
            (case scalar_one_or_none (open_conversations s customer_id) of
               Inl e \<Rightarrow> (Inl e, s)
             | Inr found \<Rightarrow>
                (case
                   (case found of
                      None \<Rightarrow>
                       (let conversation =
                              \<lparr>conv_id = next_id (map conv_id (conversations s)),
                               conv_customer_id = customer_id,
                               conv_agent_id = None,
                               conv_status = OPEN,
                               conv_priority = Some priority,
                               conv_subject =
                                 Some (if length (ms_content message) > 100
                                       then take 100 (ms_content message)
                                       else ms_content message),
                               conv_created_at = now,
                               conv_updated_at = now\<rparr>
                        in Inr (conversation,
                             s\<lparr>conversations := conversations s @ [conversation],
                               broadcasts := broadcasts s @
                                 [NewConversation (conv_id conversation)
                                    (conv_customer_id conversation) priority
                                    (conv_status conversation) (conv_subject conversation)
                                    (c_name customer) (c_email customer)]\<rparr>))
                    | Some conversation \<Rightarrow>
                       (case conv_priority conversation of
                          None \<Rightarrow> Inl AttributeError
                        | Some current \<Rightarrow>
                           Inr (if str_less (priority_value current) (priority_value priority)
                                then conversation\<lparr>conv_priority := Some priority\<rparr>
                                else conversation, s)))
                 of
                   Inl e \<Rightarrow> (Inl e, s)
                 | Inr (conversation, s2) \<Rightarrow>
                    let db_message = \<lparr>m_id = next_id (map m_id (messages s2)),
                           m_conversation_id = conv_id conversation,
                           m_customer_id = Some customer_id,
                           m_agent_id = None,
                           m_content = ms_content message,
                           m_is_from_customer = True,
                           m_priority = priority,
                           m_created_at = now\<rparr>;
                        conversation = conversation\<lparr>conv_updated_at := now\<rparr>;
                        customer = customer\<lparr>c_last_activity := now\<rparr>
                    in (Inr db_message,
                        s2\<lparr>customers := put_customer customer (customers s2),
                           conversations := put_conversation conversation (conversations s2),
                           messages := messages s2 @ [db_message],
                           broadcasts := broadcasts s2 @
                             [NewCustomerMessageById (m_id db_message) (conv_id conversation)
                                customer_id (ms_content message) priority
                                (m_created_at db_message) (c_name customer)]\<rparr>)))))"

section \<open>Two claim requests in flight on one conversation\<close>

text \<open>
  The handlers are coroutines: a request runs until its next \<open>await\<close>, where another
  request may run. Each request has a session of its own, so the conversation object
  that \<open>assign_conversation\<close> loaded stays as it was read while other requests commit.
  A claim request is therefore in one of three places: not started, past its reads
  with the loaded rows in hand, or finished with its answer.
\<close>

datatype claim_pc =
    Pending
  | Loaded Conversation Agent
  | Finished "error + AssignOk"

definition claim_step ::
  "int \<Rightarrow> int \<Rightarrow> nat \<Rightarrow> claim_pc \<Rightarrow> state \<Rightarrow> claim_pc \<times> state" where
  "claim_step conversation_id agent_id now pc s =
    (case pc of
       Pending \<Rightarrow>
        (case assign_check s conversation_id agent_id False of
           Inl e \<Rightarrow> (Finished (Inl e), s)
         | Inr (conversation, agent) \<Rightarrow> (Loaded conversation agent, s))
     | Loaded conversation agent \<Rightarrow>
        (case assign_commit s (conversation, agent) agent_id now of
           (ok, s') \<Rightarrow> (Finished (Inr ok), s'))
     | Finished r \<Rightarrow> (Finished r, s))"

text \<open>
  Two claims without \<open>force\<close> on the same conversation, by agent \<open>x\<close> at clock reading
  \<open>nx\<close> and by agent \<open>y\<close> at \<open>ny\<close>. The schedule says whose coroutine runs next.
\<close>

datatype caller = CallerX | CallerY

fun race ::
  "int \<Rightarrow> int \<times> nat \<Rightarrow> int \<times> nat \<Rightarrow> caller list \<Rightarrow> claim_pc \<times> claim_pc \<times> state
     \<Rightarrow> claim_pc \<times> claim_pc \<times> state" where
  "race conversation_id x y [] cfg = cfg"
| "race conversation_id x y (CallerX # sched) (px, py, s) =
     (case claim_step conversation_id (fst x) (snd x) px s of
        (px', s') \<Rightarrow> race conversation_id x y sched (px', py, s'))"
| "race conversation_id x y (CallerY # sched) (px, py, s) =
     (case claim_step conversation_id (fst y) (snd y) py s of
        (py', s') \<Rightarrow> race conversation_id x y sched (px, py', s'))"

text \<open>The text of the 409 answer that names the owner.\<close>

definition conflict_naming :: "string \<Rightarrow> error" where
  "conflict_naming agent_name =
     HTTPException 409 (''This conversation is already assigned to '' @ agent_name
       @ ''. Use force=true to reassign.'')"

section \<open>The websocket endpoint (backend/app/api/websocket.py)\<close>

text \<open>
  What \<open>json.loads\<close> returns. Numbers are Python integers; of a number the endpoint
  reads nothing but its truthiness.
\<close>

datatype json =
    JNull
  | JBool bool
  | JInt int
  | JStr string
  | JArr "json list"
  | JObj "(string \<times> json) list"

fun truthy_json :: "json \<Rightarrow> bool" where
  "truthy_json JNull = False"
| "truthy_json (JBool b) = b"
| "truthy_json (JInt n) = (n \<noteq> 0)"
| "truthy_json (JStr v) = (v \<noteq> [])"
| "truthy_json (JArr vs) = (vs \<noteq> [])"
| "truthy_json (JObj kvs) = (kvs \<noteq> [])"

text \<open>
  \<open>v.get(key, default)\<close>: a dictionary answers with the value or the default; any other
  JSON value has no attribute \<open>get\<close>, and Python raises \<open>AttributeError\<close>.
\<close>

fun py_get :: "json \<Rightarrow> string \<Rightarrow> json \<Rightarrow> error + json" where
  "py_get (JObj kvs) key dflt = Inr (case map_of kvs key of None \<Rightarrow> dflt | Some v \<Rightarrow> v)"
| "py_get _ key dflt = Inl AttributeError"

text \<open>The events the hub sends to a client: \<open>connected\<close>, \<open>pong\<close>, \<open>error\<close>, and the
  typing indicator \<open>AgentTyping conversation_id agent_id is_typing\<close>.\<close>

datatype ServerEvent =
    Connected "int option" string
  | Pong
  | ErrorEvent string
  | AgentTyping json int json

text \<open>
  Modelled from the spec: the state of the connection manager \<open>manager\<close> of the
  services package, which is not part of the sources at hand. Following sections 4.2
  and 4.3 of the specification, the hub holds the live channels \<open>(handle, agent_id)\<close>,
  the viewing pairs \<open>(agent_id, conversation_id)\<close>, and what has been delivered to each
  channel, in order. Every operation of the manager succeeds.
\<close>

record hub =
  active_connections :: "(nat \<times> int option) list"
  agent_viewing :: "(int \<times> json) list"
  delivered :: "(nat \<times> ServerEvent) list"

text \<open>Modelled from the spec: \<open>manager.connect\<close> registers the channel.\<close>

definition connect :: "nat \<Rightarrow> int option \<Rightarrow> hub \<Rightarrow> hub" where
  "connect websocket agent_id h =
     h\<lparr>active_connections := active_connections h @ [(websocket, agent_id)]\<rparr>"

text \<open>
  Modelled from the spec: \<open>manager.disconnect\<close> removes the channel; removing a channel
  that is not registered changes nothing.
\<close>

definition disconnect :: "nat \<Rightarrow> int option \<Rightarrow> hub \<Rightarrow> hub" where
  "disconnect websocket agent_id h =
     h\<lparr>active_connections :=
         filter (\<lambda>c. c \<noteq> (websocket, agent_id)) (active_connections h)\<rparr>"

text \<open>
  Modelled from the spec: \<open>manager.send_personal_message\<close> delivers the event to the one
  channel given.
\<close>

definition send_personal_message :: "ServerEvent \<Rightarrow> nat \<Rightarrow> hub \<Rightarrow> hub" where
  "send_personal_message message websocket h =
     h\<lparr>delivered := delivered h @ [(websocket, message)]\<rparr>"

text \<open>
  Modelled from the spec: \<open>manager.set_agent_viewing\<close> and
  \<open>manager.remove_agent_viewing\<close> add a conversation to the viewing set of the agent and
  take it out.
\<close>

definition set_agent_viewing :: "int \<Rightarrow> json \<Rightarrow> hub \<Rightarrow> hub" where
  "set_agent_viewing agent_id conversation_id h =
     (if (agent_id, conversation_id) \<in> set (agent_viewing h) then h
      else h\<lparr>agent_viewing := agent_viewing h @ [(agent_id, conversation_id)]\<rparr>)"

definition remove_agent_viewing :: "int \<Rightarrow> json \<Rightarrow> hub \<Rightarrow> hub" where
  "remove_agent_viewing agent_id conversation_id h =
     h\<lparr>agent_viewing :=
         filter (\<lambda>v. v \<noteq> (agent_id, conversation_id)) (agent_viewing h)\<rparr>"

text \<open>
  Modelled from the spec: \<open>manager.notify_agent_typing\<close> relays the typing indicator to
  the channels of the agents who are viewing the conversation.
\<close>

definition notify_agent_typing :: "json \<Rightarrow> int \<Rightarrow> json \<Rightarrow> hub \<Rightarrow> hub" where
  "notify_agent_typing conversation_id agent_id is_typing h =
     h\<lparr>delivered := delivered h @
         map (\<lambda>c. (fst c, AgentTyping conversation_id agent_id is_typing))
           (filter (\<lambda>c. case snd c of None \<Rightarrow> False
                        | Some a \<Rightarrow> (a, conversation_id) \<in> set (agent_viewing h))
              (active_connections h))\<rparr>"

text \<open>
  The body of the \<open>while True\<close> loop for one received text frame (lines 30 to 67).
  \<open>json_loads\<close> is Python's \<open>json.loads\<close>, a parameter: it returns a value or raises.
  The handler of line 63 catches \<open>JSONDecodeError\<close> and nothing else; every other
  exception, from \<open>json.loads\<close> or from a \<open>get\<close>, leaves the loop. The result is the hub
  after the frame, or the exception that leaves the loop.
\<close>

definition handle_frame ::
  "(string \<Rightarrow> error + json) \<Rightarrow> nat \<Rightarrow> int option \<Rightarrow> string \<Rightarrow> hub \<Rightarrow> error + hub" where
  "handle_frame json_loads websocket agent_id data h =
    (case json_loads data of
       Inl e \<Rightarrow>
        if e = JSONDecodeError
        then Inr (send_personal_message (ErrorEvent ''Invalid JSON format'') websocket h)
        else Inl e
     | Inr message \<Rightarrow>
        (case py_get message ''type'' JNull of
           Inl e \<Rightarrow> Inl e
         | Inr message_type \<Rightarrow>
            if message_type = JStr ''ping''
            then Inr (send_personal_message Pong websocket h)
            else if message_type = JStr ''typing''
            then
              (case py_get message ''data'' (JObj []) of
                 Inl e \<Rightarrow> Inl e
               | Inr d \<Rightarrow>
                  (case py_get d ''conversation_id'' JNull of
                     Inl e \<Rightarrow> Inl e
                   | Inr conversation_id \<Rightarrow>
                      (case py_get d ''is_typing'' (JBool False) of
                         Inl e \<Rightarrow> Inl e
                       | Inr is_typing \<Rightarrow>
                          (case agent_id of
                             Some a \<Rightarrow>
                              if truthy_json conversation_id \<and> a \<noteq> 0
                              then Inr (notify_agent_typing conversation_id a is_typing h)
                              else Inr h
                           | None \<Rightarrow> Inr h))))
            else if message_type = JStr ''viewing''
            then
              (case py_get message ''data'' (JObj []) of
                 Inl e \<Rightarrow> Inl e
               | Inr d \<Rightarrow>
                  (case py_get d ''conversation_id'' JNull of
                     Inl e \<Rightarrow> Inl e
                   | Inr conversation_id \<Rightarrow>
                      (case agent_id of
                         Some a \<Rightarrow>
                          if truthy_json conversation_id \<and> a \<noteq> 0
                          then Inr (set_agent_viewing a conversation_id h)
                          else Inr h
                       | None \<Rightarrow> Inr h)))
            else if message_type = JStr ''stop_viewing''
            then
              (case py_get message ''data'' (JObj []) of
                 Inl e \<Rightarrow> Inl e
               | Inr d \<Rightarrow>
                  (case py_get d ''conversation_id'' JNull of
                     Inl e \<Rightarrow> Inl e
                   | Inr conversation_id \<Rightarrow>
                      (case agent_id of
                         Some a \<Rightarrow>
                          if truthy_json conversation_id \<and> a \<noteq> 0
                          then Inr (remove_agent_viewing a conversation_id h)
                          else Inr h
                       | None \<Rightarrow> Inr h)))
            else Inr h))"

text \<open>
  The loop over the frames the client sends before it goes away. When the frames are
  used up \<open>receive_text\<close> raises \<open>WebSocketDisconnect\<close>; that and any other exception
  leave the loop, and both handlers call \<open>manager.disconnect\<close>.
\<close>

fun websocket_loop ::
  "(string \<Rightarrow> error + json) \<Rightarrow> nat \<Rightarrow> int option \<Rightarrow> string list \<Rightarrow> hub \<Rightarrow> hub" where
  "websocket_loop json_loads websocket agent_id [] h = disconnect websocket agent_id h"
| "websocket_loop json_loads websocket agent_id (data # frames) h =
     (case handle_frame json_loads websocket agent_id data h of
        Inl e \<Rightarrow> disconnect websocket agent_id h
      | Inr h' \<Rightarrow> websocket_loop json_loads websocket agent_id frames h')"

definition websocket_endpoint ::
  "(string \<Rightarrow> error + json) \<Rightarrow> nat \<Rightarrow> int option \<Rightarrow> string list \<Rightarrow> hub \<Rightarrow> hub" where
  "websocket_endpoint json_loads websocket agent_id frames h =
     websocket_loop json_loads websocket agent_id frames
       (send_personal_message (Connected agent_id ''Connected to messaging server'')
          websocket (connect websocket agent_id h))"

section \<open>Sample store\<close>

definition agent_ann :: Agent where
  "agent_ann = \<lparr>a_id = 1, a_name = ''Ann''\<rparr>"

definition agent_bob :: Agent where
  "agent_bob = \<lparr>a_id = 2, a_name = ''Bob''\<rparr>"

definition customer_cy :: Customer where
  "customer_cy = \<lparr>c_id = 1, c_name = ''Cy'', c_email = Some ''cy@x.io'',
     c_account_status = Some ''active'', c_last_activity = 3\<rparr>"

definition conv_open :: Conversation where
  "conv_open = \<lparr>conv_id = 1, conv_customer_id = 1, conv_agent_id = None,
     conv_status = OPEN, conv_priority = Some HIGH, conv_subject = Some ''card lost'',
     conv_created_at = 3, conv_updated_at = 3\<rparr>"

definition store0 :: state where
  "store0 = \<lparr>customers = [customer_cy], agents = [agent_ann, agent_bob],
     conversations = [conv_open], messages = [], broadcasts = []\<rparr>"

text \<open>The same store with conversation 1 owned by Ann.\<close>

definition store_ann :: state where
  "store_ann = store0\<lparr>conversations := [conv_open\<lparr>conv_agent_id := Some 1\<rparr>]\<rparr>"

text \<open>
  A second live conversation of the same customer, a store that holds both, and a store
  whose only conversation is resolved.
\<close>

definition conv_second :: Conversation where
  "conv_second = \<lparr>conv_id = 2, conv_customer_id = 1, conv_agent_id = Some 2,
     conv_status = IN_PROGRESS, conv_priority = Some LOW, conv_subject = Some ''new card'',
     conv_created_at = 4, conv_updated_at = 5\<rparr>"

definition store_two :: state where
  "store_two = store0\<lparr>conversations := [conv_open, conv_second]\<rparr>"

definition store_resolved :: state where
  "store_resolved = store0\<lparr>conversations := [conv_open\<lparr>conv_status := RESOLVED\<rparr>]\<rparr>"

text \<open>A classifier to run the handler with, and a message of customer 1.\<close>

definition sample_detect_priority :: "string \<Rightarrow> MessagePriority \<times> nat" where
  "sample_detect_priority text =
     (if text = ''This is an emergency, I need help now'' then (URGENT, 90) else (LOW, 30))"

definition message_cy :: "string \<Rightarrow> MessageSend" where
  "message_cy text = \<lparr>ms_content = text, ms_customer_email = None,
     ms_customer_name = None, ms_customer_id = Some 1\<rparr>"

text \<open>
  A stand-in for \<open>json.loads\<close> that answers as CPython 3.11 does on six kinds of frame,
  and a hub with two agents connected.
\<close>

definition sample_loads :: "string \<Rightarrow> error + json" where
  \<open>sample_loads data =
     (if data = replicate 2000 CHR ''['' then Inl RecursionError
      else if data = ''{"type": "ping"}'' then Inr (JObj [(''type'', JStr ''ping'')])
      else if data = ''{"type": "dance", "data": {}}''
      then Inr (JObj [(''type'', JStr ''dance''), (''data'', JObj [])])
      else if data = ''{"type": "dance", "n": '' @ replicate 5000 CHR ''1'' @ ''}''
      then Inl ValueError
      else if data = ''[1, 2]'' then Inr (JArr [JInt 1, JInt 2])
      else Inl JSONDecodeError)\<close>

definition hub0 :: hub where
  "hub0 = \<lparr>active_connections = [(1, Some 1), (2, Some 2)], agent_viewing = [(2, JInt 1)],
     delivered = []\<rparr>"

section \<open>Facts about the queries\<close>

lemma find_put:
  "conv_id c' = k \<Longrightarrow> find (\<lambda>r. conv_id r = k) rows \<noteq> None \<Longrightarrow>
   find (\<lambda>r. conv_id r = k) (put_conversation c' rows) = Some c'"
  by (induction rows) (auto simp: put_conversation_def)

lemma find_conversation_id:
  "find_conversation s k = Some c \<Longrightarrow> conv_id c = k"
  by (auto simp: find_conversation_def find_Some_iff)

section \<open>Agent messages\<close>

text \<open>
  C3. An agent message on a conversation that another agent owns is rejected with the
  403 answer, and the store is returned as it was: no message is stored. On a conversation
  that is unowned or owned by the sender, the message of an agent of the agent table is
  accepted and stored; afterwards the sender owns the conversation, and a conversation
  that was \<open>OPEN\<close> is \<open>IN_PROGRESS\<close>, any other status staying as it was.
\<close>

theorem send_agent_message_ownership:
  assumes "find_conversation s k = Some c"
  shows "(conv_agent_id c \<noteq> None \<and> conv_agent_id c \<noteq> Some (ams_agent_id m) \<longrightarrow>
            send_agent_message s k m now =
              (Inl (HTTPException 403
                 ''This conversation is assigned to another agent. You cannot send messages here.''), s))
       \<and> ((conv_agent_id c = None \<or> conv_agent_id c = Some (ams_agent_id m))
            \<and> find_agent s (ams_agent_id m) = Some ag \<longrightarrow>
            (\<exists>msg s' c'. send_agent_message s k m now = (Inr msg, s')
               \<and> messages s' = messages s @ [msg]
               \<and> m_content msg = ams_content m
               \<and> m_agent_id msg = Some (ams_agent_id m)
               \<and> find_conversation s' k = Some c'
               \<and> conv_agent_id c' = Some (ams_agent_id m)
               \<and> conv_status c' = (if conv_status c = OPEN then IN_PROGRESS else conv_status c)))"
proof (intro conjI impI)
  assume "conv_agent_id c \<noteq> None \<and> conv_agent_id c \<noteq> Some (ams_agent_id m)"
  with assms show "send_agent_message s k m now =
              (Inl (HTTPException 403
                 ''This conversation is assigned to another agent. You cannot send messages here.''), s)"
    by (simp add: send_agent_message_def)
next
  assume a: "(conv_agent_id c = None \<or> conv_agent_id c = Some (ams_agent_id m))
            \<and> find_agent s (ams_agent_id m) = Some ag"
  have k: "conv_id c = k" using assms by (rule find_conversation_id)
  obtain msg s' where r: "send_agent_message s k m now = (msg, s')" by (cases "send_agent_message s k m now")
  show "\<exists>msg s' c'. send_agent_message s k m now = (Inr msg, s')
               \<and> messages s' = messages s @ [msg]
               \<and> m_content msg = ams_content m
               \<and> m_agent_id msg = Some (ams_agent_id m)
               \<and> find_conversation s' k = Some c'
               \<and> conv_agent_id c' = Some (ams_agent_id m)
               \<and> conv_status c' = (if conv_status c = OPEN then IN_PROGRESS else conv_status c)"
    using assms a k
    by (auto simp: send_agent_message_def Let_def find_conversation_def find_put)
qed


text \<open>
  On the sample store: Bob writes on Ann's conversation and is refused; Ann writes on the
  unowned, open conversation and becomes its owner.
\<close>

theorem send_agent_message_ownership_witness:
  "find_conversation store_ann 1 = Some (conv_open\<lparr>conv_agent_id := Some 1\<rparr>)
   \<and> send_agent_message store_ann 1
        \<lparr>ams_content = ''hello'', ams_conversation_id = 1, ams_agent_id = 2\<rparr> 9 =
        (Inl (HTTPException 403
           ''This conversation is assigned to another agent. You cannot send messages here.''),
         store_ann)
   \<and> find_conversation store0 1 = Some conv_open
   \<and> conv_agent_id conv_open = None
   \<and> find_agent store0 1 = Some agent_ann
   \<and> (\<exists>msg s' c'. send_agent_message store0 1
          \<lparr>ams_content = ''hello'', ams_conversation_id = 1, ams_agent_id = 1\<rparr> 9 = (Inr msg, s')
        \<and> messages s' = messages store0 @ [msg]
        \<and> find_conversation s' 1 = Some c'
        \<and> conv_agent_id c' = Some 1
        \<and> conv_status c' = IN_PROGRESS)"
proof -
  have f1: "find_conversation store_ann 1 = Some (conv_open\<lparr>conv_agent_id := Some 1\<rparr>)"
    by (simp add: find_conversation_def store_ann_def store0_def conv_open_def)
  have f0: "find_conversation store0 1 = Some conv_open"
    by (simp add: find_conversation_def store0_def conv_open_def)
  have a0: "find_agent store0 1 = Some agent_ann"
    by (simp add: find_agent_def store0_def agent_ann_def)
  have o0: "conv_agent_id conv_open = None" "conv_status conv_open = OPEN"
    by (simp_all add: conv_open_def)
  show ?thesis
    using send_agent_message_ownership [OF f1,
        where m = "\<lparr>ams_content = ''hello'', ams_conversation_id = 1, ams_agent_id = 2\<rparr>"
          and now = 9 and ag = agent_bob]
      send_agent_message_ownership [OF f0,
        where m = "\<lparr>ams_content = ''hello'', ams_conversation_id = 1, ams_agent_id = 1\<rparr>"
          and now = 9 and ag = agent_ann]
      f1 f0 a0 o0
    by auto
qed

section \<open>Claim and release\<close>

text \<open>
  C4. A conversation is owned by agent \<open>a\<close> and a different agent \<open>b\<close> claims it. Without
  \<open>force\<close> the answer is the 409 conflict whose text carries the name of the owner, and
  the store, so also the owner, is unchanged. With \<open>force\<close> the claim of an agent of the
  agent table succeeds and \<open>b\<close> is the owner afterwards. A claim on an unowned
  conversation by an agent of the agent table succeeds whatever the flag.
\<close>

theorem assign_conversation_owned_by_other:
  assumes "find_conversation s k = Some c"
  shows "(conv_agent_id c = Some a \<and> a \<noteq> b \<and> find_agent s a = Some owner \<longrightarrow>
            assign_conversation s k b False now = (Inl (conflict_naming (a_name owner)), s))
       \<and> (conv_agent_id c = Some a \<and> a \<noteq> b \<and> find_agent s b = Some agent \<longrightarrow>
            (\<exists>s' c'. assign_conversation s k b True now =
                 (Inr \<lparr>ok_agent_id = b, ok_agent_name = a_name agent\<rparr>, s')
               \<and> find_conversation s' k = Some c' \<and> conv_agent_id c' = Some b))
       \<and> (conv_agent_id c = None \<and> find_agent s b = Some agent \<longrightarrow>
            (\<exists>s' c'. assign_conversation s k b force now =
                 (Inr \<lparr>ok_agent_id = b, ok_agent_name = a_name agent\<rparr>, s')
               \<and> find_conversation s' k = Some c' \<and> conv_agent_id c' = Some b))"
proof -
  have k: "conv_id c = k" using assms by (rule find_conversation_id)
  show ?thesis
    using assms k
    by (auto simp: assign_conversation_def assign_check_def assign_commit_def Let_def
        conflict_naming_def find_conversation_def find_put)
qed

text \<open>Bob claims Ann's conversation without and with \<open>force\<close>, and the unowned one.\<close>

theorem assign_conversation_owned_by_other_witness:
  "find_conversation store_ann 1 = Some (conv_open\<lparr>conv_agent_id := Some 1\<rparr>)
   \<and> find_agent store_ann 1 = Some agent_ann
   \<and> find_agent store_ann 2 = Some agent_bob
   \<and> assign_conversation store_ann 1 2 False 9 = (Inl (conflict_naming ''Ann''), store_ann)
   \<and> (\<exists>s' c'. assign_conversation store_ann 1 2 True 9 =
          (Inr \<lparr>ok_agent_id = 2, ok_agent_name = ''Bob''\<rparr>, s')
        \<and> find_conversation s' 1 = Some c' \<and> conv_agent_id c' = Some 2)
   \<and> find_conversation store0 1 = Some conv_open
   \<and> conv_agent_id conv_open = None
   \<and> (\<exists>s' c'. assign_conversation store0 1 2 False 9 =
          (Inr \<lparr>ok_agent_id = 2, ok_agent_name = ''Bob''\<rparr>, s')
        \<and> find_conversation s' 1 = Some c' \<and> conv_agent_id c' = Some 2)"
proof -
  have f1: "find_conversation store_ann 1 = Some (conv_open\<lparr>conv_agent_id := Some 1\<rparr>)"
    by (simp add: find_conversation_def store_ann_def store0_def conv_open_def)
  have f0: "find_conversation store0 1 = Some conv_open"
    by (simp add: find_conversation_def store0_def conv_open_def)
  have a1: "find_agent store_ann 1 = Some agent_ann" "find_agent store_ann 2 = Some agent_bob"
    "find_agent store0 2 = Some agent_bob"
    by (simp_all add: find_agent_def store_ann_def store0_def agent_ann_def agent_bob_def)
  have n: "a_name agent_ann = ''Ann''" "a_name agent_bob = ''Bob''"
    "conv_agent_id conv_open = None"
    by (simp_all add: agent_ann_def agent_bob_def conv_open_def)
  show ?thesis
    using assign_conversation_owned_by_other [OF f1,
        where a = 1 and b = 2 and owner = agent_ann and agent = agent_bob and now = 9]
      assign_conversation_owned_by_other [OF f0,
        where b = 2 and agent = agent_bob and now = 9 and force = False]
      f1 f0 a1 n
    by simp
qed

text \<open>
  C5. A release asked for by anyone but the current owner (also when the conversation
  has no owner) gets the 403 answer and leaves the store, so also \<open>agent_id\<close>,
  unchanged. A release by the owner succeeds; afterwards the conversation has no owner
  and the status it had before.
\<close>

theorem release_conversation_owner_only:
  assumes "find_conversation s k = Some c"
  shows "(conv_agent_id c \<noteq> Some a \<longrightarrow>
            release_conversation s k a now =
              (Inl (HTTPException 403 ''You can only release conversations assigned to you''), s))
       \<and> (conv_agent_id c = Some a \<longrightarrow>
            (\<exists>s' c'. release_conversation s k a now = (Inr ''Conversation released'', s')
               \<and> find_conversation s' k = Some c'
               \<and> conv_agent_id c' = None
               \<and> conv_status c' = conv_status c))"
proof -
  have k: "conv_id c = k" using assms by (rule find_conversation_id)
  show ?thesis
    using assms k
    by (auto simp: release_conversation_def Let_def find_conversation_def find_put)
qed

text \<open>Bob cannot release Ann's conversation; Ann can.\<close>

theorem release_conversation_owner_only_witness:
  "find_conversation store_ann 1 = Some (conv_open\<lparr>conv_agent_id := Some 1\<rparr>)
   \<and> release_conversation store_ann 1 2 9 =
       (Inl (HTTPException 403 ''You can only release conversations assigned to you''), store_ann)
   \<and> (\<exists>s' c'. release_conversation store_ann 1 1 9 = (Inr ''Conversation released'', s')
        \<and> find_conversation s' 1 = Some c'
        \<and> conv_agent_id c' = None
        \<and> conv_status c' = OPEN)"
proof -
  have f1: "find_conversation store_ann 1 = Some (conv_open\<lparr>conv_agent_id := Some 1\<rparr>)"
    by (simp add: find_conversation_def store_ann_def store0_def conv_open_def)
  have n: "conv_status conv_open = OPEN"
    by (simp add: conv_open_def)
  show ?thesis
    using release_conversation_owner_only [OF f1, where a = 2 and now = 9]
      release_conversation_owner_only [OF f1, where a = 1 and now = 9] f1 n
    by simp
qed

text \<open>
  C6, as the code has it. A claim by the agent who already owns the conversation
  succeeds, with or without \<open>force\<close>, and never answers with a conflict; the
  conversation keeps its owner, only \<open>updated_at\<close> is set to the time of the call; and
  the call asks for one more \<open>ConversationUpdated\<close> broadcast, with the same payload as
  the broadcast of the first claim.
\<close>

theorem assign_conversation_self_claim:
  assumes "find_conversation s k = Some c"
    and "conv_agent_id c = Some a"
    and "find_agent s a = Some agent"
  shows "\<exists>s'. assign_conversation s k a force now =
             (Inr \<lparr>ok_agent_id = a, ok_agent_name = a_name agent\<rparr>, s')
          \<and> find_conversation s' k = Some (c\<lparr>conv_updated_at := now\<rparr>)
          \<and> broadcasts s' =
              broadcasts s @ [ConversationUpdated k (Some a) (Some (a_name agent))]"
proof -
  have k: "conv_id c = k" using assms(1) by (rule find_conversation_id)
  have e: "c\<lparr>conv_agent_id := Some a, conv_updated_at := now\<rparr> = c\<lparr>conv_updated_at := now\<rparr>"
    using assms(2) by simp
  show ?thesis
    using assms k e
    by (auto simp: assign_conversation_def assign_check_def assign_commit_def Let_def
        find_conversation_def find_put)
qed

text \<open>Ann claims the conversation she owns.\<close>

theorem assign_conversation_self_claim_witness:
  "find_conversation store_ann 1 = Some (conv_open\<lparr>conv_agent_id := Some 1\<rparr>)
   \<and> find_agent store_ann 1 = Some agent_ann
   \<and> (\<exists>s'. assign_conversation store_ann 1 1 False 9 =
             (Inr \<lparr>ok_agent_id = 1, ok_agent_name = ''Ann''\<rparr>, s')
          \<and> find_conversation s' 1 = Some (conv_open\<lparr>conv_agent_id := Some 1, conv_updated_at := 9\<rparr>)
          \<and> broadcasts s' = [ConversationUpdated 1 (Some 1) (Some ''Ann'')])"
proof -
  have f1: "find_conversation store_ann 1 = Some (conv_open\<lparr>conv_agent_id := Some 1\<rparr>)"
    by (simp add: find_conversation_def store_ann_def store0_def conv_open_def)
  have a1: "find_agent store_ann 1 = Some agent_ann"
    by (simp add: find_agent_def store_ann_def store0_def agent_ann_def)
  have n: "a_name agent_ann = ''Ann''" "broadcasts store_ann = []"
    by (simp_all add: agent_ann_def store_ann_def store0_def)
  show ?thesis
    using assign_conversation_self_claim [OF f1 _ a1, where force = False and now = 9] f1 a1 n
    by simp
qed

text \<open>
  C6 as stated fails: the claim of the owner is not free of broadcasts. Ann's claim of
  her own conversation adds a \<open>ConversationUpdated\<close> to the broadcasts, and claiming the
  unowned conversation twice in a row leaves two equal broadcasts.
\<close>

theorem assign_conversation_self_claim_rebroadcasts:
  "fst (assign_conversation store_ann 1 1 False 9) =
     Inr \<lparr>ok_agent_id = 1, ok_agent_name = ''Ann''\<rparr>
   \<and> broadcasts store_ann = []
   \<and> broadcasts (snd (assign_conversation store_ann 1 1 False 9)) =
       [ConversationUpdated 1 (Some 1) (Some ''Ann'')]
   \<and> broadcasts (snd (assign_conversation (snd (assign_conversation store0 1 1 False 8)) 1 1 False 9)) =
       [ConversationUpdated 1 (Some 1) (Some ''Ann''),
        ConversationUpdated 1 (Some 1) (Some ''Ann'')]"
  by (simp add: assign_conversation_def assign_check_def assign_commit_def Let_def
      find_conversation_def find_agent_def put_conversation_def
      store_ann_def store0_def conv_open_def agent_ann_def agent_bob_def)

text \<open>
  C10. When an agent message is accepted, the stored message has priority \<open>MEDIUM\<close>
  whatever its text (the handler has no classifier to call), and the conversation row
  afterwards differs from the row before in \<open>agent_id\<close>, \<open>status\<close> and \<open>updated_at\<close> at
  most; in particular its priority is the one it had.
\<close>

theorem send_agent_message_frame:
  assumes "find_conversation s k = Some c"
    and "send_agent_message s k m now = (Inr msg, s')"
  shows "m_priority msg = MEDIUM
       \<and> m_content msg = ams_content m
       \<and> messages s' = messages s @ [msg]
       \<and> (\<exists>c'. find_conversation s' k = Some c'
             \<and> conv_priority c' = conv_priority c
             \<and> c' = c\<lparr>conv_agent_id := conv_agent_id c', conv_status := conv_status c',
                      conv_updated_at := conv_updated_at c'\<rparr>)"
proof -
  have k: "conv_id c = k" using assms(1) by (rule find_conversation_id)
  show ?thesis
    using assms k
    by (auto simp: send_agent_message_def Let_def find_conversation_def find_put
        split: if_splits option.splits)
qed

text \<open>A message full of urgent words, sent by Ann on the conversation of priority \<open>HIGH\<close>.\<close>

theorem send_agent_message_frame_witness:
  "find_conversation store0 1 = Some conv_open
   \<and> (\<exists>msg s'. send_agent_message store0 1
          \<lparr>ams_content = ''URGENT emergency help now'', ams_conversation_id = 1, ams_agent_id = 1\<rparr> 9
            = (Inr msg, s')
        \<and> m_priority msg = MEDIUM
        \<and> (\<exists>c'. find_conversation s' 1 = Some c' \<and> conv_priority c' = Some HIGH))"
proof -
  have f0: "find_conversation store0 1 = Some conv_open"
    by (simp add: find_conversation_def store0_def conv_open_def)
  obtain r s' where r: "send_agent_message store0 1
          \<lparr>ams_content = ''URGENT emergency help now'', ams_conversation_id = 1, ams_agent_id = 1\<rparr> 9
            = (r, s')"
    by (cases "send_agent_message store0 1
          \<lparr>ams_content = ''URGENT emergency help now'', ams_conversation_id = 1, ams_agent_id = 1\<rparr> 9")
  have "\<exists>msg. r = Inr msg"
    using r by (auto simp: send_agent_message_def Let_def find_conversation_def find_agent_def
        store0_def conv_open_def agent_ann_def)
  then obtain msg where m: "r = Inr msg" ..
  have p: "conv_priority conv_open = Some HIGH" by (simp add: conv_open_def)
  show ?thesis
    using send_agent_message_frame [OF f0 r [unfolded m]] f0 r m p
    by auto
qed

section \<open>Inbound customer messages\<close>

lemma priority_order_less: "(priority_order b < priority_order a) = (b < a)"
  by (cases a; cases b) (simp_all add: less_MessagePriority_def)

lemma open_conversations_member:
  "open_conversations s k = [c] \<Longrightarrow> find (\<lambda>r. conv_id r = conv_id c) (conversations s) \<noteq> None"
proof -
  assume a: "open_conversations s k = [c]"
  have "c \<in> set (open_conversations s k)" using a by simp
  then have "c \<in> set (conversations s)" by (simp add: open_conversations_def)
  then show ?thesis by (auto simp: find_None_iff)
qed

text \<open>
  The escalation rule in \<open>receive_external_message\<close>. The customer of the message is
  found and has exactly one conversation \<open>c\<close> in status \<open>OPEN\<close> or \<open>IN_PROGRESS\<close>, at
  priority \<open>b\<close>; the message is classified \<open>a\<close>. Then the message is processed without
  error and attached to \<open>c\<close>, and afterwards the priority of \<open>c\<close> is \<open>max b a\<close> in the
  order \<open>LOW < MEDIUM < HIGH < URGENT\<close>; when \<open>a \<le> b\<close> it is still \<open>b\<close>.
\<close>

theorem receive_external_message_priority_max:
  assumes "find_or_create_customer s message now = Inr (customer, s1)"
    and "open_conversations s1 (c_id customer) = [c]"
    and "detect_priority (ms_content message) = (a, conf)"
    and "conv_priority c = Some b"
  shows "\<exists>r s' c'. receive_external_message detect_priority s message now = (Inr r, s')
           \<and> ext_conversation_id r = conv_id c
           \<and> find_conversation s' (conv_id c) = Some c'
           \<and> conv_priority c' = Some (max b a)
           \<and> (a \<le> b \<longrightarrow> conv_priority c' = Some b)"
proof -
  have m: "find (\<lambda>r. conv_id r = conv_id c) (conversations s1) \<noteq> None"
    using assms(2) by (rule open_conversations_member)
  have o: "(priority_order b < priority_order a) = (b < a)" by (rule priority_order_less)
  show ?thesis
    using assms m o
    by (auto simp: receive_external_message_def scalar_one_or_none_def Let_def
        find_conversation_def find_put priority_order_get_def max_def)
qed


text \<open>
  On the sample store the conversation is at \<open>HIGH\<close>: a message classified \<open>LOW\<close>
  leaves it there, one classified \<open>URGENT\<close> raises it.
\<close>

lemma find_customer_cy:
  "find_or_create_customer store0 (message_cy text) 9 = Inr (customer_cy, store0)"
  by (simp add: find_or_create_customer_def message_cy_def truthy_int_def find_customer_def
      store0_def customer_cy_def)

theorem receive_external_message_priority_max_witness:
  "find_or_create_customer store0 (message_cy ''thanks'') 9 = Inr (customer_cy, store0)
   \<and> open_conversations store0 (c_id customer_cy) = [conv_open]
   \<and> sample_detect_priority ''thanks'' = (LOW, 30)
   \<and> conv_priority conv_open = Some HIGH
   \<and> LOW \<le> HIGH
   \<and> (\<exists>r s' c'. receive_external_message sample_detect_priority store0 (message_cy ''thanks'') 9
          = (Inr r, s')
        \<and> find_conversation s' 1 = Some c' \<and> conv_priority c' = Some HIGH)
   \<and> sample_detect_priority ''This is an emergency, I need help now'' = (URGENT, 90)
   \<and> (\<exists>r s' c'. receive_external_message sample_detect_priority store0
            (message_cy ''This is an emergency, I need help now'') 9 = (Inr r, s')
        \<and> find_conversation s' 1 = Some c' \<and> conv_priority c' = Some URGENT)"
proof -
  have o: "open_conversations store0 (c_id customer_cy) = [conv_open]"
    by (simp add: open_conversations_def store0_def customer_cy_def conv_open_def)
  have d: "sample_detect_priority ''thanks'' = (LOW, 30)"
    "sample_detect_priority ''This is an emergency, I need help now'' = (URGENT, 90)"
    by (simp_all add: sample_detect_priority_def)
  have d1: "sample_detect_priority (ms_content (message_cy ''thanks'')) = (LOW, 30)"
    and d2: "sample_detect_priority
        (ms_content (message_cy ''This is an emergency, I need help now'')) = (URGENT, 90)"
    by (simp_all add: sample_detect_priority_def message_cy_def)
  have p: "conv_priority conv_open = Some HIGH" "conv_id conv_open = 1"
    by (simp_all add: conv_open_def)
  have m: "max HIGH LOW = HIGH" "max HIGH URGENT = URGENT" "LOW \<le> HIGH"
    by (simp_all add: max_def)
  note t1 = receive_external_message_priority_max
      [where detect_priority = sample_detect_priority and message = "message_cy ''thanks''",
        OF find_customer_cy o d1 p(1)]
  note t2 = receive_external_message_priority_max
      [where detect_priority = sample_detect_priority
         and message = "message_cy ''This is an emergency, I need help now''",
        OF find_customer_cy o d2 p(1)]
  show ?thesis
    using t1 t2 find_customer_cy o d p m
    by auto
qed

text \<open>
  The same rule in \<open>send_customer_message\<close> is a comparison of strings, and as strings
  \<open>high < low < medium < urgent\<close>: the handler replaces the priority exactly in the
  cases below, where the order of the levels asks for \<open>b < a\<close>.
\<close>

lemma str_less_priority_value:
  "str_less (priority_value b) (priority_value a) =
     (b = HIGH \<and> a \<noteq> HIGH \<or> b = LOW \<and> (a = MEDIUM \<or> a = URGENT) \<or> b = MEDIUM \<and> a = URGENT)"
  by (cases a; cases b) simp_all

text \<open>
  C2. A customer message can lower the priority. Customer 1 has one live conversation,
  at \<open>HIGH\<close>; a message classified \<open>LOW\<close> arrives through \<open>send_customer_message\<close>.
  The maximum of the two levels is \<open>HIGH\<close>, but \<open>''high''\<close> is below \<open>''low''\<close> as a
  string, so the handler writes the new level: afterwards the conversation is at \<open>LOW\<close>.
\<close>

theorem send_customer_message_lowers_priority:
  "find_customer store0 1 = Some customer_cy
   \<and> open_conversations store0 1 = [conv_open]
   \<and> conv_priority conv_open = Some HIGH
   \<and> sample_detect_priority ''thanks'' = (LOW, 30)
   \<and> max HIGH LOW = HIGH
   \<and> str_less (priority_value HIGH) (priority_value LOW)
   \<and> map conv_priority (conversations (snd (send_customer_message sample_detect_priority
         store0 1 (message_cy ''thanks'') 9))) = [Some LOW]"
  by (simp add: send_customer_message_def find_customer_def open_conversations_def
      scalar_one_or_none_def sample_detect_priority_def message_cy_def Let_def
      put_conversation_def store0_def customer_cy_def conv_open_def max_def)

text \<open>
  C7. A customer with two conversations in status \<open>OPEN\<close> or \<open>IN_PROGRESS\<close>: the query
  orders them by \<open>updated_at\<close>, latest first, and \<open>scalar_one_or_none\<close> then raises
  \<open>MultipleResultsFound\<close> on the second row. The request fails and nothing is stored;
  the message is attached to no conversation.
\<close>

theorem receive_external_message_two_open_fails:
  "open_conversations store_two 1 = [conv_second, conv_open]
   \<and> receive_external_message sample_detect_priority store_two (message_cy ''thanks'') 9 =
       (Inl MultipleResultsFound, store_two)"
  by (simp add: receive_external_message_def find_or_create_customer_def message_cy_def
      truthy_int_def find_customer_def open_conversations_def scalar_one_or_none_def
      sample_detect_priority_def store_two_def store0_def customer_cy_def conv_open_def
      conv_second_def)

text \<open>\<open>send_customer_message\<close> fetches the row in the same way and fails in the same way.\<close>

lemma send_customer_message_two_open_fails:
  "send_customer_message sample_detect_priority store_two 1 (message_cy ''thanks'') 9 =
     (Inl MultipleResultsFound, store_two)"
  by (simp add: send_customer_message_def message_cy_def find_customer_def
      open_conversations_def scalar_one_or_none_def sample_detect_priority_def store_two_def
      store0_def customer_cy_def conv_open_def conv_second_def)

text \<open>The key of a new row is above every key of the table.\<close>

lemma fold_max_upper: "k \<in> set ks \<Longrightarrow> k \<le> fold max ks (a::int)"
proof (induction ks arbitrary: a)
  case Nil
  then show ?case by simp
next
  case (Cons x xs)
  have mono: "\<And>b. b \<le> fold max xs b"
  proof -
    fix b :: int
    show "b \<le> fold max xs b"
    proof (induction xs arbitrary: b)
      case Nil
      show ?case by simp
    next
      case (Cons y ys)
      have "b \<le> max y b" by simp
      also have "max y b \<le> fold max ys (max y b)" by (rule Cons.IH)
      finally show ?case by simp
    qed
  qed
  show ?case
  proof (cases "k = x")
    case True
    have "x \<le> max x a" by simp
    also have "max x a \<le> fold max xs (max x a)" by (rule mono)
    finally show ?thesis using True by simp
  next
    case False
    then have "k \<in> set xs" using Cons.prems by simp
    then show ?thesis using Cons.IH by simp
  qed
qed

lemma put_conversation_fresh:
  "conv_id c = next_id (map conv_id rows) \<Longrightarrow> conv_id c' = conv_id c \<Longrightarrow>
   put_conversation c' (rows @ [c]) = rows @ [c']"
proof -
  assume a: "conv_id c = next_id (map conv_id rows)" and b: "conv_id c' = conv_id c"
  have "\<forall>r \<in> set rows. conv_id r \<noteq> conv_id c'"
  proof
    fix r assume "r \<in> set rows"
    then have "conv_id r \<in> set (map conv_id rows)" by simp
    then have "conv_id r \<le> fold max (map conv_id rows) 0" by (rule fold_max_upper)
    then show "conv_id r \<noteq> conv_id c'" using a b by (simp add: next_id_def)
  qed
  then have "map (\<lambda>r. if conv_id r = conv_id c' then c' else r) rows = rows"
    by (induction rows) simp_all
  then show ?thesis using b by (simp add: put_conversation_def)
qed

text \<open>
  C8, as the code has it. When the customer of an inbound message has no conversation
  in status \<open>OPEN\<close> or \<open>IN_PROGRESS\<close>, the handler appends a new conversation: status
  \<open>OPEN\<close>, the classified priority, no owner. The message is attached to the new
  conversation, and every conversation that existed before, a \<open>RESOLVED\<close> one
  included, is left exactly as it was.
\<close>

theorem receive_external_message_no_open_creates:
  assumes "find_or_create_customer s message now = Inr (customer, s1)"
    and "open_conversations s1 (c_id customer) = []"
    and "detect_priority (ms_content message) = (a, conf)"
  shows "\<exists>r s' cnew. receive_external_message detect_priority s message now = (Inr r, s')
           \<and> conversations s' = conversations s1 @ [cnew]
           \<and> conv_status cnew = OPEN
           \<and> conv_priority cnew = Some a
           \<and> conv_customer_id cnew = c_id customer
           \<and> conv_agent_id cnew = None
           \<and> ext_conversation_id r = conv_id cnew
           \<and> (\<exists>msg. messages s' = messages s1 @ [msg]
                 \<and> m_conversation_id msg = conv_id cnew)"
  using assms
  by (simp add: receive_external_message_def scalar_one_or_none_def Let_def
      put_conversation_fresh)

text \<open>The customer whose only conversation is resolved.\<close>

theorem receive_external_message_no_open_creates_witness:
  "find_or_create_customer store_resolved (message_cy ''thanks'') 9
     = Inr (customer_cy, store_resolved)
   \<and> open_conversations store_resolved (c_id customer_cy) = []
   \<and> (\<exists>r s' cnew. receive_external_message sample_detect_priority store_resolved
          (message_cy ''thanks'') 9 = (Inr r, s')
        \<and> conversations s' = conversations store_resolved @ [cnew]
        \<and> conv_status cnew = OPEN
        \<and> conv_priority cnew = Some LOW)"
proof -
  have f: "find_or_create_customer store_resolved (message_cy ''thanks'') 9
     = Inr (customer_cy, store_resolved)"
    by (simp add: find_or_create_customer_def message_cy_def truthy_int_def find_customer_def
      store_resolved_def store0_def customer_cy_def)
  have o: "open_conversations store_resolved (c_id customer_cy) = []"
    by (simp add: open_conversations_def store_resolved_def store0_def customer_cy_def
        conv_open_def)
  have d: "sample_detect_priority (ms_content (message_cy ''thanks'')) = (LOW, 30)"
    by (simp add: sample_detect_priority_def message_cy_def)
  show ?thesis
    using receive_external_message_no_open_creates
        [where detect_priority = sample_detect_priority, OF f o d] f o
    by auto
qed

text \<open>
  C8 as stated fails: the customer's only conversation is \<open>RESOLVED\<close>; after the
  message it is still \<open>RESOLVED\<close>, and the message went to the new conversation 2.
\<close>

theorem receive_external_message_resolved_stays:
  "map conv_status (conversations store_resolved) = [RESOLVED]
   \<and> open_conversations store_resolved 1 = []
   \<and> fst (receive_external_message sample_detect_priority store_resolved
          (message_cy ''thanks'') 9) =
       Inr \<lparr>ext_message_id = 1, ext_conversation_id = 2, ext_customer_id = 1,
            ext_priority = LOW, ext_priority_confidence = 30\<rparr>
   \<and> map conv_id
        (conversations (snd (receive_external_message sample_detect_priority store_resolved
          (message_cy ''thanks'') 9))) = [1, 2]
   \<and> map conv_status
        (conversations (snd (receive_external_message sample_detect_priority store_resolved
          (message_cy ''thanks'') 9))) = [RESOLVED, OPEN]"
  by (simp add: receive_external_message_def find_or_create_customer_def message_cy_def
      truthy_int_def find_customer_def open_conversations_def scalar_one_or_none_def
      sample_detect_priority_def store_resolved_def store0_def customer_cy_def conv_open_def
      Let_def next_id_def put_conversation_def)

section \<open>Racing claims\<close>

text \<open>
  C1 as stated fails. Ann and Bob claim the unowned conversation 1 and their requests
  overlap: both read the conversation before either commits. Both pass the owner check,
  both commit, both get the success answer; nobody gets a conflict, and the conversation
  is left with the owner whose write came last. The owner check and the owner write are
  two steps with awaits between them, and the write carries no condition.
\<close>

theorem race_both_claims_succeed:
  "find_conversation store0 1 = Some conv_open
   \<and> conv_agent_id conv_open = None
   \<and> fst (race 1 (1, 8) (2, 9) [CallerX, CallerY, CallerX, CallerY] (Pending, Pending, store0))
       = Finished (Inr \<lparr>ok_agent_id = 1, ok_agent_name = ''Ann''\<rparr>)
   \<and> fst (snd (race 1 (1, 8) (2, 9) [CallerX, CallerY, CallerX, CallerY]
         (Pending, Pending, store0)))
       = Finished (Inr \<lparr>ok_agent_id = 2, ok_agent_name = ''Bob''\<rparr>)
   \<and> map conv_agent_id (conversations (snd (snd (race 1 (1, 8) (2, 9)
         [CallerX, CallerY, CallerX, CallerY] (Pending, Pending, store0))))) = [Some 2]"
  by (simp add: claim_step_def assign_check_def assign_commit_def Let_def
      find_conversation_def find_agent_def put_conversation_def
      store0_def conv_open_def agent_ann_def agent_bob_def)

text \<open>
  A request that runs its two steps with nothing in between is the handler
  \<open>assign_conversation\<close>, and a schedule that runs one request after the other is the
  handler called twice.
\<close>

lemma claim_step_twice:
  "(case claim_step k a now Pending s of (pc, s1) \<Rightarrow> claim_step k a now pc s1) =
   (case assign_conversation s k a False now of (r, s') \<Rightarrow> (Finished r, s'))"
  by (auto simp: claim_step_def assign_conversation_def split: sum.splits prod.splits)

lemma race_serial:
  "race k (x, nx) (y, ny) [CallerX, CallerX, CallerY, CallerY] (Pending, Pending, s) =
     (case assign_conversation s k x False nx of (rx, s1) \<Rightarrow>
        (case assign_conversation s1 k y False ny of (ry, s2) \<Rightarrow>
           (Finished rx, Finished ry, s2)))"
  by (auto simp: claim_step_def assign_conversation_def split: sum.splits prod.splits)

text \<open>
  C1, as the code has it. Two distinct agents of the agent table claim an unowned
  conversation without \<open>force\<close>, and one request runs to its end before the other
  begins. Then the first succeeds, the second gets the 409 conflict whose text names the
  first, and the first is the owner afterwards; this holds in either order.
\<close>

theorem race_serial_claims:
  assumes "find_conversation s k = Some c"
    and "conv_agent_id c = None"
    and "x \<noteq> y"
    and "find_agent s x = Some ax"
    and "find_agent s y = Some ay"
  shows "(\<exists>s' c'. race k (x, nx) (y, ny) [CallerX, CallerX, CallerY, CallerY]
              (Pending, Pending, s) =
            (Finished (Inr \<lparr>ok_agent_id = x, ok_agent_name = a_name ax\<rparr>),
             Finished (Inl (conflict_naming (a_name ax))), s')
          \<and> find_conversation s' k = Some c' \<and> conv_agent_id c' = Some x)
       \<and> (\<exists>s' c'. race k (x, nx) (y, ny) [CallerY, CallerY, CallerX, CallerX]
              (Pending, Pending, s) =
            (Finished (Inl (conflict_naming (a_name ay))),
             Finished (Inr \<lparr>ok_agent_id = y, ok_agent_name = a_name ay\<rparr>), s')
          \<and> find_conversation s' k = Some c' \<and> conv_agent_id c' = Some y)"
proof -
  have k: "conv_id c = k" using assms(1) by (rule find_conversation_id)
  show ?thesis
    using assms k
    by (auto simp: claim_step_def assign_check_def assign_commit_def Let_def
        conflict_naming_def find_conversation_def find_agent_def find_put)
qed

text \<open>Ann's request runs before Bob's.\<close>

theorem race_serial_claims_witness:
  "find_conversation store0 1 = Some conv_open
   \<and> conv_agent_id conv_open = None
   \<and> (1::int) \<noteq> 2
   \<and> find_agent store0 1 = Some agent_ann
   \<and> find_agent store0 2 = Some agent_bob
   \<and> (\<exists>s' c'. race 1 (1, 8) (2, 9) [CallerX, CallerX, CallerY, CallerY]
              (Pending, Pending, store0) =
            (Finished (Inr \<lparr>ok_agent_id = 1, ok_agent_name = ''Ann''\<rparr>),
             Finished (Inl (conflict_naming ''Ann'')), s')
          \<and> find_conversation s' 1 = Some c' \<and> conv_agent_id c' = Some 1)"
proof -
  have f0: "find_conversation store0 1 = Some conv_open"
    by (simp add: find_conversation_def store0_def conv_open_def)
  have o: "conv_agent_id conv_open = None" by (simp add: conv_open_def)
  have d: "(1::int) \<noteq> 2" by simp
  have a: "find_agent store0 1 = Some agent_ann" "find_agent store0 2 = Some agent_bob"
    by (simp_all add: find_agent_def store0_def agent_ann_def agent_bob_def)
  have n: "a_name agent_ann = ''Ann''" by (simp add: agent_ann_def)
  show ?thesis
    using race_serial_claims [OF f0 o d a, where nx = 8 and ny = 9] f0 o a n
    by auto
qed

section \<open>Control frames on the websocket\<close>

text \<open>
  What the loop does with the frames it handles. When \<open>json.loads\<close> raises
  \<open>JSONDecodeError\<close>, the hub delivers one \<open>error\<close> event, to the channel the frame came
  from, and the loop goes on with the next frame. A frame that is a JSON object whose
  \<open>type\<close> is missing or is none of \<open>ping\<close>, \<open>typing\<close>, \<open>viewing\<close>, \<open>stop_viewing\<close>
  leaves the hub exactly as it was, and the loop goes on.
\<close>

theorem websocket_bad_frames:
  "(json_loads data = Inl JSONDecodeError \<longrightarrow>
      handle_frame json_loads websocket agent_id data h =
        Inr (h\<lparr>delivered := delivered h @ [(websocket, ErrorEvent ''Invalid JSON format'')]\<rparr>)
      \<and> websocket_loop json_loads websocket agent_id (data # frames) h =
          websocket_loop json_loads websocket agent_id frames
            (h\<lparr>delivered := delivered h @ [(websocket, ErrorEvent ''Invalid JSON format'')]\<rparr>))
   \<and> (json_loads data = Inr (JObj kvs)
       \<and> (\<forall>t \<in> set [''ping'', ''typing'', ''viewing'', ''stop_viewing''].
             map_of kvs ''type'' \<noteq> Some (JStr t)) \<longrightarrow>
      handle_frame json_loads websocket agent_id data h = Inr h
      \<and> websocket_loop json_loads websocket agent_id (data # frames) h =
          websocket_loop json_loads websocket agent_id frames h)"
  by (auto simp: handle_frame_def send_personal_message_def split: option.splits)

text \<open>The values of the stand-in parser on the frames used below.\<close>

lemma sample_loads_text:
  \<open>sample_loads ''not json'' = Inl JSONDecodeError\<close>
  \<open>sample_loads ''{"type": "ping"}'' = Inr (JObj [(''type'', JStr ''ping'')])\<close>
  \<open>sample_loads ''{"type": "dance", "data": {}}'' =
     Inr (JObj [(''type'', JStr ''dance''), (''data'', JObj [])])\<close>
proof -
  have a: "replicate 2000 CHR ''['' = CHR ''['' # replicate 1999 CHR ''[''"
    by (simp add: numeral_eq_Suc)
  show \<open>sample_loads ''not json'' = Inl JSONDecodeError\<close>
    unfolding sample_loads_def a by simp
  show \<open>sample_loads ''{"type": "ping"}'' = Inr (JObj [(''type'', JStr ''ping'')])\<close>
    unfolding sample_loads_def a by simp
  show \<open>sample_loads ''{"type": "dance", "data": {}}'' =
     Inr (JObj [(''type'', JStr ''dance''), (''data'', JObj [])])\<close>
    unfolding sample_loads_def a by simp
qed

lemma sample_loads_deep: "sample_loads (replicate 2000 CHR ''['') = Inl RecursionError"
  by (simp add: sample_loads_def)

lemma sample_loads_digits:
  \<open>sample_loads (''{"type": "dance", "n": '' @ replicate 5000 CHR ''1'' @ ''}'') = Inl ValueError\<close>
proof -
  have a: "replicate 2000 CHR ''['' = CHR ''['' # replicate 1999 CHR ''[''"
    by (simp add: numeral_eq_Suc)
  show ?thesis
    unfolding sample_loads_def a by simp
qed

lemma sample_loads_array: \<open>sample_loads ''[1, 2]'' = Inr (JArr [JInt 1, JInt 2])\<close>
proof -
  have a: "replicate 2000 CHR ''['' = CHR ''['' # CHR ''['' # replicate 1998 CHR ''[''"
    by (simp add: numeral_eq_Suc)
  have b: "replicate 5000 CHR ''1'' = CHR ''1'' # replicate 4999 CHR ''1''"
    by (simp add: numeral_eq_Suc)
  show ?thesis
    unfolding sample_loads_def a b by simp
qed

text \<open>
  Agent 1 sends a frame that is not JSON, then a frame of the unknown type \<open>dance\<close>,
  then a ping, and goes away: the channel got the error event and the pong, in this
  order, and agent 2's channel got nothing.
\<close>

theorem websocket_bad_frames_witness:
  \<open>sample_loads ''not json'' = Inl JSONDecodeError
   \<and> handle_frame sample_loads 1 (Some 1) ''not json'' hub0 =
       Inr (hub0\<lparr>delivered := [(1, ErrorEvent ''Invalid JSON format'')]\<rparr>)
   \<and> sample_loads ''{"type": "dance", "data": {}}'' =
       Inr (JObj [(''type'', JStr ''dance''), (''data'', JObj [])])
   \<and> map_of [(''type'', JStr ''dance''), (''data'', JObj [])] ''type'' = Some (JStr ''dance'')
   \<and> handle_frame sample_loads 1 (Some 1) ''{"type": "dance", "data": {}}'' hub0 = Inr hub0
   \<and> websocket_loop sample_loads 1 (Some 1)
        [''not json'', ''{"type": "dance", "data": {}}'', ''{"type": "ping"}''] hub0 =
       hub0\<lparr>active_connections := [(2, Some 2)],
            delivered := [(1, ErrorEvent ''Invalid JSON format''), (1, Pong)]\<rparr>\<close>
proof -
  have u: "\<forall>t \<in> set [''ping'', ''typing'', ''viewing'', ''stop_viewing''].
         map_of [(''type'', JStr ''dance''), (''data'', JObj [])] ''type'' \<noteq> Some (JStr t)"
    by simp
  have d: "delivered hub0 = []" by (simp add: hub0_def)
  have p: \<open>websocket_loop sample_loads 1 (Some 1) [''{"type": "ping"}'']
             (hub0\<lparr>delivered := [(1, ErrorEvent ''Invalid JSON format'')]\<rparr>) =
       hub0\<lparr>active_connections := [(2, Some 2)],
            delivered := [(1, ErrorEvent ''Invalid JSON format''), (1, Pong)]\<rparr>\<close>
    by (simp add: handle_frame_def sample_loads_text send_personal_message_def disconnect_def
        hub0_def)
  note a = websocket_bad_frames [where json_loads = sample_loads and data = "''not json''"
      and websocket = 1 and agent_id = "Some 1" and h = hub0]
  note b = websocket_bad_frames [where json_loads = sample_loads
      and data = \<open>''{"type": "dance", "data": {}}''\<close>
      and kvs = "[(''type'', JStr ''dance''), (''data'', JObj [])]"
      and websocket = 1 and agent_id = "Some 1"]
  show ?thesis
    using a [where frames = \<open>[''{"type": "dance", "data": {}}'', ''{"type": "ping"}'']\<close>]
      b [where h = \<open>hub0\<lparr>delivered := [(1, ErrorEvent ''Invalid JSON format'')]\<rparr>\<close>
          and frames = \<open>[''{"type": "ping"}'']\<close>]
      b [where h = hub0 and frames = "[]"]
      sample_loads_text u d p
    by simp
qed

text \<open>
  Any other exception of \<open>json.loads\<close> is not caught inside the loop, and a frame that
  is JSON but not an object has no \<open>get\<close>: in both cases the exception ends the loop,
  no event is delivered, and the channel is unregistered.
\<close>

lemma websocket_uncaught_exception:
  "json_loads data = Inl e \<Longrightarrow> e \<noteq> JSONDecodeError \<Longrightarrow>
   handle_frame json_loads websocket agent_id data h = Inl e
   \<and> websocket_loop json_loads websocket agent_id (data # frames) h =
       disconnect websocket agent_id h"
  by (simp add: handle_frame_def)

lemma websocket_non_object_frame:
  "json_loads data = Inr v \<Longrightarrow> \<forall>kvs. v \<noteq> JObj kvs \<Longrightarrow>
   websocket_loop json_loads websocket agent_id (data # frames) h =
     disconnect websocket agent_id h"
  by (cases v) (simp_all add: handle_frame_def)

text \<open>
  C9. Frames that end the connection without an error event. A frame of 2000 opening
  brackets is not JSON, but \<open>json.loads\<close> raises \<open>RecursionError\<close> on it; an object of
  the unknown type \<open>dance\<close> that carries an integer of 5000 digits is JSON, but
  \<open>json.loads\<close> raises \<open>ValueError\<close> on it; the array \<open>[1, 2]\<close> is JSON without a
  \<open>type\<close>. After each of them agent 1's channel is unregistered, the ping that follows
  is never read, and nothing has been delivered: no error event, no pong. Agent 2's
  channel stays registered.
\<close>

theorem websocket_frames_end_connection:
  \<open>sample_loads (replicate 2000 CHR ''['') = Inl RecursionError
   \<and> websocket_loop sample_loads 1 (Some 1) [replicate 2000 CHR ''['', ''{"type": "ping"}''] hub0
       = hub0\<lparr>active_connections := [(2, Some 2)]\<rparr>
   \<and> sample_loads (''{"type": "dance", "n": '' @ replicate 5000 CHR ''1'' @ ''}'') = Inl ValueError
   \<and> websocket_loop sample_loads 1 (Some 1)
        [''{"type": "dance", "n": '' @ replicate 5000 CHR ''1'' @ ''}'', ''{"type": "ping"}''] hub0
       = hub0\<lparr>active_connections := [(2, Some 2)]\<rparr>
   \<and> sample_loads ''[1, 2]'' = Inr (JArr [JInt 1, JInt 2])
   \<and> websocket_loop sample_loads 1 (Some 1) [''[1, 2]'', ''{"type": "ping"}''] hub0
       = hub0\<lparr>active_connections := [(2, Some 2)]\<rparr>
   \<and> delivered (hub0\<lparr>active_connections := [(2, Some 2)]\<rparr>) = []\<close>
proof -
  have d: "disconnect 1 (Some 1) hub0 = hub0\<lparr>active_connections := [(2, Some 2)]\<rparr>"
    by (simp add: disconnect_def hub0_def)
  have e: "delivered (hub0\<lparr>active_connections := [(2, Some 2)]\<rparr>) = []"
    by (simp add: hub0_def)
  have h1: "handle_frame sample_loads 1 (Some 1) (replicate 2000 CHR ''['') hub0
      = Inl RecursionError"
    unfolding handle_frame_def sample_loads_deep by simp
  have h2: \<open>handle_frame sample_loads 1 (Some 1)
      (''{"type": "dance", "n": '' @ replicate 5000 CHR ''1'' @ ''}'') hub0 = Inl ValueError\<close>
    unfolding handle_frame_def sample_loads_digits by simp
  have h3: \<open>handle_frame sample_loads 1 (Some 1) ''[1, 2]'' hub0 = Inl AttributeError\<close>
    unfolding handle_frame_def sample_loads_array by simp
  show ?thesis
    unfolding websocket_loop.simps h1 h2 h3
    using d e sample_loads_deep sample_loads_digits sample_loads_array by simp
qed

end
